theory Spec2Isabelle
  imports Main
begin

section \<open>Strings as the handlers use them\<close>

text \<open>
  Go strings are byte sequences; they are modelled as \<open>string\<close> (a list of 8-bit
  characters). Only the functions of package \<open>strings\<close> that the three source files
  call are modelled, each with the behaviour its Go documentation gives.
\<close>

text \<open>
  \<open>strings.ToLower\<close>. A string of ASCII bytes only takes the fast path of the Go
  function: the 26 upper-case letters are mapped to their lower-case forms and
  every other byte is left as it is. Any other string is mapped rune by rune with
  \<open>unicode.ToLower\<close>; that mapping belongs to the Go library and is the parameter
  \<open>MapToLower\<close>.
\<close>

definition lower_table :: "(char \<times> char) list" where
  "lower_table = zip ''ABCDEFGHIJKLMNOPQRSTUVWXYZ'' ''abcdefghijklmnopqrstuvwxyz''"

definition lower_char :: "char \<Rightarrow> char" where
  "lower_char c = (case map_of lower_table c of Some d \<Rightarrow> d | None \<Rightarrow> c)"

definition is_ascii :: "char \<Rightarrow> bool" where
  "is_ascii c = (\<not> digit7 c)"

definition ToLower :: "(string \<Rightarrow> string) \<Rightarrow> string \<Rightarrow> string" where
  "ToLower MapToLower s = (if list_all is_ascii s then map lower_char s else MapToLower s)"

text \<open>\<open>strings.HasPrefix\<close> and \<open>strings.HasSuffix\<close>.\<close>

definition HasPrefix :: "string \<Rightarrow> string \<Rightarrow> bool" where
  "HasPrefix s p = (length p \<le> length s \<and> take (length p) s = p)"

definition HasSuffix :: "string \<Rightarrow> string \<Rightarrow> bool" where
  "HasSuffix s x = (length x \<le> length s \<and> drop (length s - length x) s = x)"

text \<open>\<open>strings.TrimSuffix\<close> removes the suffix once, when it is there.\<close>

definition TrimSuffix :: "string \<Rightarrow> string \<Rightarrow> string" where
  "TrimSuffix s x = (if HasSuffix s x then take (length s - length x) s else s)"

text \<open>
  \<open>strings.TrimRight(s, "/")\<close>, the only cutset the source uses being a single
  character: every trailing occurrence of the character is removed.
\<close>

definition TrimRight :: "string \<Rightarrow> char \<Rightarrow> string" where
  "TrimRight s c = rev (dropWhile (\<lambda>x. x = c) (rev s))"

text \<open>
  \<open>strings.Split(s, sep)\<close> for a separator of one character: the fields between the
  occurrences of the separator, so a string without the separator is one field, and
  the empty string is the one empty field.
\<close>

fun Split :: "string \<Rightarrow> char \<Rightarrow> string list" where
  "Split [] c = [[]]"
| "Split (x # xs) c =
     (if x = c then [] # Split xs c
      else (case Split xs c of
              [] \<Rightarrow> [[x]]
            | f # fs \<Rightarrow> (x # f) # fs))"

section \<open>Panics and indexing\<close>

text \<open>
  A Go index expression \<open>xs[i]\<close> panics when \<open>i\<close> is out of range, a method call
  through a nil interface panics, and a type assertion \<open>v.(T)\<close> panics when the
  dynamic type of \<open>v\<close> is not \<open>T\<close>. Each is a value of the model.
\<close>

datatype panic =
    IndexOutOfRange nat nat
  | NilDereference
  | InterfaceConversion

definition index :: "'a list \<Rightarrow> nat \<Rightarrow> panic + 'a" where
  "index xs i = (if i < length xs then Inr (xs ! i) else Inl (IndexOutOfRange i (length xs)))"

section \<open>The GSS provider of package pgx (provider.go)\<close>

text \<open>
  \<open>canonicalizeHost\<close> (provider.go, lines 82 to 86): lower-case the host, then remove
  one trailing dot.
\<close>

definition canonicalizeHost :: "(string \<Rightarrow> string) \<Rightarrow> string \<Rightarrow> string" where
  "canonicalizeHost MapToLower h = TrimSuffix (ToLower MapToLower h) ''.''"

text \<open>
  The SPN of the wire path, as \<open>GetInitToken\<close> builds it (provider.go, line 49), and
  the SPN of the HTTP Negotiate path, as \<open>loginKerberos\<close> builds it from the host name
  of the parsed base URL (ipa.go, lines 46 and 47).
\<close>

definition wire_spn :: "(string \<Rightarrow> string) \<Rightarrow> string \<Rightarrow> string \<Rightarrow> string" where
  "wire_spn MapToLower host service = service @ ''/'' @ canonicalizeHost MapToLower host"

definition http_spn :: "(string \<Rightarrow> string) \<Rightarrow> string \<Rightarrow> string" where
  "http_spn MapToLower hostname = ''HTTP/'' @ ToLower MapToLower hostname"

text \<open>
  \<open>Continue\<close> (provider.go, lines 72 to 80). \<open>spnego.KRB5Token.Unmarshal\<close> belongs to
  the Kerberos library; it is a parameter, returning \<open>Some\<close> error message when the
  bytes do not parse. The result is the triple \<open>(done, output token, error)\<close>.
\<close>

definition Continue :: "(string \<Rightarrow> string option) \<Rightarrow> string \<Rightarrow> bool \<times> string option \<times> string option" where
  "Continue Unmarshal inToken =
     (case Unmarshal inToken of
        Some err \<Rightarrow> (True, None, None)
      | None \<Rightarrow> (True, None, None))"

section \<open>The world outside the repository\<close>

text \<open>
  The handlers call the Kerberos library (gokrb5), the PostgreSQL driver (pgx, pgconn,
  pgxpool), \<open>net/http\<close>, \<open>net/url\<close>, \<open>encoding/json\<close> and \<open>os.Getenv\<close>. None of
  them is code of this repository: each is a field of the record \<open>env\<close>, the world as
  it answers at the moment of the call. A fallible call returns \<open>Inl\<close> with the
  library's error message.
\<close>

datatype context_flag =
    ContextFlagDeleg | ContextFlagMutual | ContextFlagReplay | ContextFlagSequence
  | ContextFlagConf | ContextFlagInteg | ContextFlagAnon

datatype client_setting = AssumePreAuthentication bool | DisablePAFXFAST bool

datatype ccache = CCache string

datatype config = Config string

datatype client = Client ccache config "client_setting list"

datatype key = EncryptionKey string

datatype krb5token = KRB5Token string

record ticket =
  SName :: string
  EndTime :: nat

record cookie =
  Name :: string
  Value :: string

record ipaRPC =
  RPCMethod :: string
  Positional :: "string list"
  Named :: "(string \<times> bool) list"

type_synonym json_map = "(string \<times> string) list"

record ipaResp =
  RespResult :: json_map
  RespError :: "(int \<times> string) option"

record http_request =
  Method :: string
  URL :: string
  ReqHeader :: "(string \<times> string) list"
  ReqCookies :: "cookie list"
  ReqBody :: "ipaRPC option"

record http_response =
  StatusCode :: int
  Cookies :: "cookie list"
  Body :: string

datatype http_client = HttpClient nat

abbreviation StatusOK :: int where "StatusOK \<equiv> 200"
abbreviation StatusBadRequest :: int where "StatusBadRequest \<equiv> 400"
abbreviation StatusUnauthorized :: int where "StatusUnauthorized \<equiv> 401"
abbreviation StatusInternalServerError :: int where "StatusInternalServerError \<equiv> 500"
abbreviation StatusBadGateway :: int where "StatusBadGateway \<equiv> 502"

text \<open>A value of Go's \<open>any\<close>, as a driver returns it in a row.\<close>

datatype any = AnyString string | AnyTime int | AnyInt int | AnyNil

record pg_rows =
  Values :: "(string + any list) list"
  Err :: "string option"

record tls_config =
  MinVersion :: string
  ServerName :: string

record pg_config =
  ParsedDSN :: string
  ConnectTimeout :: nat
  TLSConfig :: "tls_config option"

record pool_config =
  PoolDSN :: string
  MaxConns :: nat
  MinConns :: nat
  MaxConnLifetime :: nat
  HealthCheckPeriod :: nat
  DialTimeout :: "nat option"

datatype conn = Conn string

datatype pool = Pool string

text \<open>
  The function handed to \<open>pgconn.RegisterGSSProvider\<close> is a closure over the
  credential-cache path, the configuration path and the client options; the closure
  is represented by what it captures.
\<close>

record gss_provider =
  prov_ccachePath :: string
  prov_krb5Conf :: string
  prov_opts :: "client_setting list"

record dbData =
  CurrentUser :: string
  SessionUser :: string
  Timestamp :: int

datatype payload = InfoPayload json_map | DbPayload "dbData list"

record env =
  Map_unicode_ToLower :: "string \<Rightarrow> string"
  url_Hostname :: "string \<Rightarrow> string + string"
  LoadCCache :: "string \<Rightarrow> string + ccache"
  config_Load :: "string \<Rightarrow> string + config"
  config_New :: config
  NewFromCCache :: "ccache \<Rightarrow> config \<Rightarrow> client_setting list \<Rightarrow> string + client"
  GetServiceTicket :: "client \<Rightarrow> string \<Rightarrow> string + (ticket \<times> key)"
  NewKRB5TokenAPREQ :: "client \<Rightarrow> ticket \<Rightarrow> key \<Rightarrow> context_flag list \<Rightarrow> string + krb5token"
  Marshal :: "krb5token \<Rightarrow> string + string"
  Unmarshal :: "string \<Rightarrow> string option"
  EncodeToString :: "string \<Rightarrow> string"
  http_Do :: "http_request \<Rightarrow> string + http_response"
  json_Decode :: "string \<Rightarrow> string + ipaResp"
  json_Encode :: "payload \<Rightarrow> string option"
  Getenv :: "string \<Rightarrow> string"
  pgx_ParseConfig :: "string \<Rightarrow> string + pg_config"
  pgx_ConnectConfig :: "gss_provider \<Rightarrow> pg_config \<Rightarrow> string + conn"
  conn_Query :: "conn \<Rightarrow> string \<Rightarrow> string + pg_rows"
  pgxpool_ParseConfig :: "string \<Rightarrow> string + pool_config"
  pgxpool_NewWithConfig :: "gss_provider \<Rightarrow> pool_config \<Rightarrow> string + pool"

text \<open>
  \<open>Map_unicode_ToLower\<close> is \<open>strings.Map(unicode.ToLower, s)\<close>, the path of
  \<open>strings.ToLower\<close> for a string with a byte outside ASCII.
  \<open>url_Hostname\<close> is \<open>url.Parse\<close> followed by \<open>Hostname()\<close>. \<open>pgx_ConnectConfig\<close> and
  \<open>pgxpool_NewWithConfig\<close> take the provider that is registered when they run: in a
  single request that is the one the same function registered just before.
\<close>

section \<open>Errors, events and results\<close>

text \<open>
  The Go code builds its errors with \<open>fmt.Errorf\<close> and \<open>errors.New\<close>; there is one
  constructor for each place that does so, and \<open>ErrLibrary\<close> for a library error
  that is returned as it is.
\<close>

datatype error =
    ErrIpaUrl string
  | ErrLoadCCache string
  | ErrLoadKrb5Conf string
  | ErrKerbClient string
  | ErrServiceTicket string string
  | ErrBuildAPREQ string
  | ErrMarshalAPREQ string
  | ErrLoginKerberos string
  | ErrLoginKerberosHTTP int
  | ErrNoIpaSessionCookie
  | ErrJsonRpc string
  | ErrJsonRpcHTTP int string
  | ErrDecode string
  | ErrIpa int string
  | ErrClientFromCCache string
  | ErrGetServiceTicket string string
  | ErrBuildKRB5Token string
  | ErrLibrary string

text \<open>The text passed to \<open>http.Error\<close>: a literal, or a literal followed by \<open>err.Error()\<close>.\<close>

datatype message = Plain string | WithError string error

text \<open>
  Everything a function does besides returning is recorded, in order: the calls into
  the outside world and the writes to the response.
\<close>

datatype event =
    CallUrlParse string
  | CallLoadCCache string
  | CallConfigLoad string
  | CallConfigNew
  | CallNewFromCCache "client_setting list"
  | CallGetServiceTicket string
  | CallNewKRB5TokenAPREQ "context_flag list"
  | CallMarshal
  | CallHttpDo http_request
  | BodyClose
  | RegisterGSSProvider gss_provider
  | CallParseConfig string
  | CallConnectConfig pg_config
  | CallQuery string
  | RowsClose
  | ConnClose
  | CallPoolParseConfig string
  | CallPoolNewWithConfig pool_config
  | LogPrintln string
  | HttpError message int
  | HeaderSet string string
  | JsonEncode payload
  | WriteHeader int

type_synonym 'a io = "event list \<times> (error + 'a)"

definition call :: "event \<Rightarrow> (string + 'a) \<Rightarrow> (string \<Rightarrow> error) \<Rightarrow> 'a io" where
  "call ev r wrap = ([ev], (case r of Inl m \<Rightarrow> Inl (wrap m) | Inr a \<Rightarrow> Inr a))"

definition io_bind :: "'a io \<Rightarrow> ('a \<Rightarrow> 'b io) \<Rightarrow> 'b io" where
  "io_bind m f =
     (case m of
        (tr, Inl e) \<Rightarrow> (tr, Inl e)
      | (tr, Inr a) \<Rightarrow> (case f a of (tr', r) \<Rightarrow> (tr @ tr', r)))"

definition io_return :: "'a \<Rightarrow> 'a io" where
  "io_return a = ([], Inr a)"

definition io_fail :: "error \<Rightarrow> 'a io" where
  "io_fail e = ([], Inl e)"

section \<open>Login to the directory service (ipa.go)\<close>

text \<open>
  \<open>loginKerberos\<close>, lines 49 to 70: the credential cache is loaded, the realm
  configuration is loaded, a client is built from both, and the client is asked for
  the service ticket of the SPN. Nothing is kept from one call to the next.
\<close>

definition loginKerberos_ticket :: "env \<Rightarrow> string \<Rightarrow> string \<Rightarrow> string \<Rightarrow> (client \<times> ticket \<times> key) io" where
  "loginKerberos_ticket env krb5ConfPath ccachePath spn =
     io_bind (call (CallLoadCCache ccachePath) (LoadCCache env ccachePath) ErrLoadCCache) (\<lambda>cc.
     io_bind (call (CallConfigLoad krb5ConfPath) (config_Load env krb5ConfPath) ErrLoadKrb5Conf) (\<lambda>krbCfg.
     io_bind (call (CallNewFromCCache [AssumePreAuthentication True])
                (NewFromCCache env cc krbCfg [AssumePreAuthentication True]) ErrKerbClient) (\<lambda>cli.
     io_bind (call (CallGetServiceTicket spn) (GetServiceTicket env cli spn) (ErrServiceTicket spn)) (\<lambda>(tkt, skey).
     io_return (cli, tkt, skey)))))"

text \<open>
  \<open>loginKerberos\<close>, lines 41 to 117. The request context only carries a deadline and
  is left out; \<open>http.NewRequestWithContext\<close> is taken to succeed, as the source
  takes it (it drops the error).
\<close>

definition loginKerberos :: "env \<Rightarrow> string \<Rightarrow> string \<Rightarrow> string \<Rightarrow> (http_client \<times> cookie) io" where
  "loginKerberos env ipaBaseURL krb5ConfPath ccachePath =
     io_bind (call (CallUrlParse ipaBaseURL) (url_Hostname env ipaBaseURL) ErrIpaUrl) (\<lambda>hostname.
     io_bind (loginKerberos_ticket env krb5ConfPath ccachePath (http_spn (Map_unicode_ToLower env) hostname)) (\<lambda>(cli, tkt, skey).
     io_bind (call (CallNewKRB5TokenAPREQ [ContextFlagInteg, ContextFlagConf])
                (NewKRB5TokenAPREQ env cli tkt skey [ContextFlagInteg, ContextFlagConf]) ErrBuildAPREQ) (\<lambda>gtok.
     io_bind (call CallMarshal (Marshal env gtok) ErrMarshalAPREQ) (\<lambda>rawTok.
     let authz = ''Negotiate '' @ EncodeToString env rawTok;
         loginURL = TrimRight ipaBaseURL CHR ''/'' @ ''/ipa/session/login_kerberos'';
         req = \<lparr>Method = ''GET'', URL = loginURL,
                ReqHeader = [(''Authorization'', authz), (''Accept'', ''application/json'')],
                ReqCookies = [], ReqBody = None\<rparr>;
         httpClient = HttpClient 10
     in
     io_bind (call (CallHttpDo req) (http_Do env req) ErrLoginKerberos) (\<lambda>resp.
     io_bind ([BodyClose], Inr ()) (\<lambda>_.
       if StatusCode resp \<noteq> StatusOK then io_fail (ErrLoginKerberosHTTP (StatusCode resp))
       else (case find (\<lambda>c. HasPrefix (Name c) ''ipa_session'') (Cookies resp) of
               None \<Rightarrow> io_fail ErrNoIpaSessionCookie
             | Some ipaCookie \<Rightarrow> io_return (httpClient, ipaCookie))))))))"

text \<open>\<open>UserShow\<close>, lines 119 to 163.\<close>

definition UserShow :: "env \<Rightarrow> string \<Rightarrow> string \<Rightarrow> string \<Rightarrow> string \<Rightarrow> json_map io" where
  "UserShow env ipaBaseURL krb5ConfPath ccachePath uid =
     io_bind (loginKerberos env ipaBaseURL krb5ConfPath ccachePath) (\<lambda>(httpClient, ipaCookie).
     let rpc = \<lparr>RPCMethod = ''user_show'', Positional = [uid], Named = [(''all'', True)]\<rparr>;
         jsonURL = TrimRight ipaBaseURL CHR ''/'' @ ''/ipa/session/json'';
         base = TrimRight ipaBaseURL CHR ''/'';
         req = \<lparr>Method = ''POST'', URL = jsonURL,
                ReqHeader = [(''Content-Type'', ''application/json''), (''Accept'', ''application/json''),
                             (''Referer'', base @ ''/ipa'')],
                ReqCookies = [ipaCookie], ReqBody = Some rpc\<rparr>
     in
     io_bind (call (CallHttpDo req) (http_Do env req) ErrJsonRpc) (\<lambda>resp.
       if StatusCode resp \<noteq> StatusOK
       then ([BodyClose], Inl (ErrJsonRpcHTTP (StatusCode resp) (Body resp)))
       else (case json_Decode env (Body resp) of
               Inl m \<Rightarrow> ([BodyClose], Inl (ErrDecode m))
             | Inr out \<Rightarrow>
                 (case RespError out of
                    Some (code, msg) \<Rightarrow> ([BodyClose], Inl (ErrIpa code msg))
                  | None \<Rightarrow> ([BodyClose], Inr (RespResult out))))))"

section \<open>The inbound request and the two handlers\<close>

text \<open>
  What the handlers read of the inbound request: its headers, the query of its URL,
  and the identity the SPNEGO layer may have attached to its context
  (\<open>goidentity.FromHTTPRequestContext\<close> returns nil when there is none).
  \<open>Header.Get\<close> and \<open>Values.Get\<close> return the empty string for a missing key and
  the first value otherwise; header names are in the canonical form in which the
  server stores them.
\<close>

record identity =
  UserName :: string

record request =
  Header :: "(string \<times> string) list"
  Query :: "(string \<times> string) list"
  Identity :: "identity option"

definition Get :: "(string \<times> string) list \<Rightarrow> string \<Rightarrow> string" where
  "Get kvs k = (case map_of kvs k of None \<Rightarrow> [] | Some v \<Rightarrow> v)"

text \<open>A handler returns, or it panics; either way the events up to that point stand.\<close>

datatype outcome = Returned | Panicked panic

text \<open>\<open>IpaUserHandler\<close>, lines 165 to 206.\<close>

definition IpaUserHandler :: "env \<Rightarrow> request \<Rightarrow> event list \<times> outcome" where
  "IpaUserHandler env r =
     (let ccacheRaw = Get (Header r) ''X_krb5ccname'' in
      if ccacheRaw = []
      then ([LogPrintln ''no delegated credentials'',
             HttpError (Plain ''unauthorized '') StatusUnauthorized], Returned)
      else (case index (Split ccacheRaw CHR '':'') 1 of
              Inl p \<Rightarrow> ([], Panicked p)
            | Inr ccache \<Rightarrow>
                (let uid = Get (Query r) ''uid'' in
                 if uid = []
                 then ([HttpError (Plain ''uid is required'') StatusBadRequest], Returned)
                 else (case UserShow env (Getenv env ''FREEIPA_BASE_URL'')
                              (Getenv env ''KRB5_CONFIG_PATH'') ccache uid of
                         (tr, Inl err) \<Rightarrow>
                           (tr @ [HttpError (WithError ''ipa: '' err) StatusBadGateway], Returned)
                       | (tr, Inr info) \<Rightarrow>
                           (tr @ [HeaderSet ''Content-Type'' ''application/json; charset=utf-8'',
                                  JsonEncode (InfoPayload info)]
                               @ (case json_Encode env (InfoPayload info) of
                                    Some m \<Rightarrow> [HttpError (Plain (''ipa: '' @ m)) StatusInternalServerError]
                                  | None \<Rightarrow> [])
                               @ [WriteHeader StatusOK], Returned)))))"

section \<open>Tokens and queries on the wire path (provider.go)\<close>

record gssFromCCache =
  cl :: client

text \<open>\<open>NewGSSFromCCache\<close>, lines 27 to 46.\<close>

definition NewGSSFromCCache :: "env \<Rightarrow> string \<Rightarrow> string \<Rightarrow> client_setting list \<Rightarrow> gssFromCCache io" where
  "NewGSSFromCCache env ccachePath krb5ConfPath opts =
     io_bind (call (CallLoadCCache ccachePath) (LoadCCache env ccachePath) ErrLoadCCache) (\<lambda>cc.
     io_bind (if krb5ConfPath \<noteq> []
              then call (CallConfigLoad krb5ConfPath) (config_Load env krb5ConfPath) ErrLoadKrb5Conf
              else ([CallConfigNew], Inr (config_New env))) (\<lambda>cfg.
     io_bind (call (CallNewFromCCache opts) (NewFromCCache env cc cfg opts) ErrClientFromCCache) (\<lambda>c.
     io_return \<lparr>cl = c\<rparr>)))"

text \<open>\<open>GetInitTokenFromSPN\<close>, lines 53 to 69: first the ticket (lines 55 to 58), then the token.\<close>

definition GetInitTokenFromSPN_ticket :: "env \<Rightarrow> gssFromCCache \<Rightarrow> string \<Rightarrow> (ticket \<times> key) io" where
  "GetInitTokenFromSPN_ticket env g spn =
     call (CallGetServiceTicket spn) (GetServiceTicket env (cl g) spn) (ErrGetServiceTicket spn)"

definition GetInitTokenFromSPN :: "env \<Rightarrow> gssFromCCache \<Rightarrow> string \<Rightarrow> string io" where
  "GetInitTokenFromSPN env g spn =
     io_bind (GetInitTokenFromSPN_ticket env g spn) (\<lambda>(tkt, k).
     io_bind (call (CallNewKRB5TokenAPREQ [ContextFlagInteg, ContextFlagConf, ContextFlagMutual])
                (NewKRB5TokenAPREQ env (cl g) tkt k
                   [ContextFlagInteg, ContextFlagConf, ContextFlagMutual]) ErrBuildKRB5Token) (\<lambda>krbTok.
     call CallMarshal (Marshal env krbTok) ErrLibrary))"

text \<open>\<open>GetInitToken\<close>, lines 48 to 51.\<close>

definition GetInitToken :: "env \<Rightarrow> gssFromCCache \<Rightarrow> string \<Rightarrow> string \<Rightarrow> string io" where
  "GetInitToken env g host service = GetInitTokenFromSPN env g (wire_spn (Map_unicode_ToLower env) host service)"

text \<open>
  The loop of \<open>QueryAsUser\<close> over the result (lines 124 to 131): each \<open>r.Values()\<close>
  is a row or an error, and the first error ends the function.
\<close>

fun drain :: "(string + any list) list \<Rightarrow> any list list \<Rightarrow> string + any list list" where
  "drain [] out = Inr out"
| "drain (v # vs) out =
     (case v of
        Inl m \<Rightarrow> Inl m
      | Inr vals \<Rightarrow> drain vs (out @ [vals]))"

text \<open>The closure that \<open>QueryAsUser\<close> registers (lines 96 to 102).\<close>

definition QueryAsUser_provider :: "string \<Rightarrow> string \<Rightarrow> gss_provider" where
  "QueryAsUser_provider ccachePath krb5Conf =
     \<lparr>prov_ccachePath = ccachePath, prov_krb5Conf = krb5Conf,
      prov_opts = [AssumePreAuthentication True, DisablePAFXFAST False]\<rparr>"

text \<open>
  \<open>QueryAsUser\<close>, lines 92 to 133, called without query arguments as the handler
  calls it. The result is the pair the Go function returns: the rows and the error
  (the last line returns both \<open>out\<close> and \<open>r.Err()\<close>). The deferred calls close the
  rows, then the connection.
\<close>

definition QueryAsUser :: "env \<Rightarrow> string \<Rightarrow> string \<Rightarrow> string \<Rightarrow> string \<Rightarrow> event list \<times> (any list list \<times> error option)" where
  "QueryAsUser env dsn ccachePath krb5Conf sql =
     (let provider = QueryAsUser_provider ccachePath krb5Conf;
          ev0 = [RegisterGSSProvider provider, CallParseConfig dsn]
      in case pgx_ParseConfig env dsn of
           Inl m \<Rightarrow> (ev0, ([], Some (ErrLibrary m)))
         | Inr cfg0 \<Rightarrow>
             (let cfg = cfg0\<lparr>ConnectTimeout := 5,
                            TLSConfig := Some \<lparr>MinVersion = ''VersionTLS12'',
                                               ServerName = Getenv env ''PG_HOST''\<rparr>\<rparr>;
                  ev1 = ev0 @ [CallConnectConfig cfg]
              in case pgx_ConnectConfig env provider cfg of
                   Inl m \<Rightarrow> (ev1, ([], Some (ErrLibrary m)))
                 | Inr c \<Rightarrow>
                     (case conn_Query env c sql of
                        Inl m \<Rightarrow> (ev1 @ [CallQuery sql, ConnClose], ([], Some (ErrLibrary m)))
                      | Inr r \<Rightarrow>
                          (case drain (Values r) [] of
                             Inl m \<Rightarrow> (ev1 @ [CallQuery sql, RowsClose, ConnClose],
                                        ([], Some (ErrLibrary m)))
                           | Inr out \<Rightarrow> (ev1 @ [CallQuery sql, RowsClose, ConnClose],
                                          (out, map_option ErrLibrary (Err r)))))))"

text \<open>\<open>PoolForUser\<close>, lines 140 to 157.\<close>

definition PoolForUser :: "env \<Rightarrow> string \<Rightarrow> string \<Rightarrow> string \<Rightarrow> pool io" where
  "PoolForUser env dsn ccachePath krb5Conf =
     (let provider = \<lparr>prov_ccachePath = ccachePath, prov_krb5Conf = krb5Conf, prov_opts = []\<rparr> in
      io_bind ([RegisterGSSProvider provider], Inr ()) (\<lambda>_.
      io_bind (call (CallPoolParseConfig dsn) (pgxpool_ParseConfig env dsn) ErrLibrary) (\<lambda>pc0.
      let pc = pc0\<lparr>MaxConns := 1, MinConns := 0, MaxConnLifetime := 30,
                   HealthCheckPeriod := 0, DialTimeout := Some 5\<rparr>
      in call (CallPoolNewWithConfig pc) (pgxpool_NewWithConfig env provider pc) ErrLibrary)))"

section \<open>The database handler (ipa.go, second part)\<close>

definition as_string :: "any \<Rightarrow> panic + string" where
  "as_string v = (case v of AnyString s \<Rightarrow> Inr s | _ \<Rightarrow> Inl InterfaceConversion)"

definition as_time :: "any \<Rightarrow> panic + int" where
  "as_time v = (case v of AnyTime t \<Rightarrow> Inr t | _ \<Rightarrow> Inl InterfaceConversion)"

definition panic_bind :: "panic + 'a \<Rightarrow> ('a \<Rightarrow> panic + 'b) \<Rightarrow> panic + 'b" where
  "panic_bind m f = (case m of Inl p \<Rightarrow> Inl p | Inr a \<Rightarrow> f a)"

text \<open>The zero value of \<open>dbData\<close>, which \<open>make([]dbData, n)\<close> fills the slice with.\<close>

definition zero_dbData :: dbData where
  "zero_dbData = \<lparr>CurrentUser = [], SessionUser = [], Timestamp = 0\<rparr>"

text \<open>The body of the loop over the rows (lines 264 to 268).\<close>

definition row_dbData :: "any list \<Rightarrow> panic + dbData" where
  "row_dbData row =
     panic_bind (index row 0) (\<lambda>v0. panic_bind (as_string v0) (\<lambda>cu.
     panic_bind (index row 1) (\<lambda>v1. panic_bind (as_string v1) (\<lambda>su.
     panic_bind (index row 2) (\<lambda>v2. panic_bind (as_time v2) (\<lambda>ts.
     Inr \<lparr>CurrentUser = cu, SessionUser = su, Timestamp = ts\<rparr>))))))"

text \<open>The loop (lines 262 to 271): each decoded record is appended to the slice.\<close>

fun range_rows :: "any list list \<Rightarrow> dbData list \<Rightarrow> panic + dbData list" where
  "range_rows [] userDataList = Inr userDataList"
| "range_rows (row # rows) userDataList =
     (case row_dbData row of
        Inl p \<Rightarrow> Inl p
      | Inr userdata \<Rightarrow> range_rows rows (userDataList @ [userdata]))"

text \<open>The connection string of line 245.\<close>

definition dbDsn :: "env \<Rightarrow> string \<Rightarrow> string" where
  "dbDsn env username =
     ''host='' @ Getenv env ''PG_HOST'' @ '' user='' @ username
       @ '' dbname='' @ Getenv env ''PG_DB'' @ '' sslmode=require krbsrvname=postgres''"

text \<open>
  \<open>TestSelectHandler\<close>, lines 226 to 279. With no identity the handler writes the
  response of line 237 and goes on to line 240, where the method call on the nil
  identity panics.
\<close>

definition TestSelectHandler :: "env \<Rightarrow> request \<Rightarrow> event list \<times> outcome" where
  "TestSelectHandler env r =
     (let ccacheRaw = Get (Header r) ''X_krb5ccname'' in
      if ccacheRaw = []
      then ([HttpError (Plain ''no delegated credentials'') StatusUnauthorized], Returned)
      else (case index (Split ccacheRaw CHR '':'') 1 of
              Inl p \<Rightarrow> ([], Panicked p)
            | Inr ccache \<Rightarrow>
                (let ev0 = (if Identity r = None
                            then [HttpError (Plain ''id is required'') StatusUnauthorized] else [])
                 in case Identity r of
                      None \<Rightarrow> (ev0, Panicked NilDereference)
                    | Some ident \<Rightarrow>
                        (let username = UserName ident
                         in case QueryAsUser env (dbDsn env username) ccache
                                   (Getenv env ''KRB5_CONFIG_PATH'')
                                   ''select current_user, session_user, now()'' of
                              (tr, (rows, Some err)) \<Rightarrow>
                                (ev0 @ tr @ [HttpError (WithError [] err) StatusInternalServerError],
                                 Returned)
                            | (tr, (rows, None)) \<Rightarrow>
                                (case range_rows rows (replicate (length rows) zero_dbData) of
                                   Inl p \<Rightarrow> (ev0 @ tr, Panicked p)
                                 | Inr userDataList \<Rightarrow>
                                     (ev0 @ tr @ [HeaderSet ''Content-Type'' ''application/json'',
                                                  JsonEncode (DbPayload userDataList)]
                                        @ (case json_Encode env (DbPayload userDataList) of
                                             Some m \<Rightarrow> [HttpError (Plain m) StatusInternalServerError]
                                           | None \<Rightarrow> []),
                                      Returned))))))"

section \<open>Auxiliary definitions for the properties\<close>

fun is_CallHttpDo :: "event \<Rightarrow> bool" where
  "is_CallHttpDo (CallHttpDo req) = True"
| "is_CallHttpDo ev = False"

text \<open>
  Modelled from the spec: the exchange that drives \<open>Continue\<close> is the loop of the
  database client library, which is not part of the repository; the specification
  describes it as a \<open>Continue\<close> step repeated until done. The loop sends a token,
  reads the reply of the peer, hands it to \<open>Continue\<close>, and sends the next token
  unless \<open>Continue\<close> reports an error or that it is done. The list holds the replies
  the peer would give, and the result is the list of tokens sent. A nil output token
  is sent as the empty token; when the peer gives no reply the exchange ends.
\<close>

fun gss_exchange :: "(string \<Rightarrow> string option) \<Rightarrow> string \<Rightarrow> string list \<Rightarrow> string list" where
  "gss_exchange U tok [] = [tok]"
| "gss_exchange U tok (reply # replies) =
     tok # (case Continue U reply of
              (done, nextData, err) \<Rightarrow>
                if err \<noteq> None \<or> done then []
                else gss_exchange U (case nextData of None \<Rightarrow> [] | Some t \<Rightarrow> t) replies)"

section \<open>Two requests and the process-wide provider\<close>

text \<open>
  \<open>pgconn.RegisterGSSProvider\<close> stores its argument in one variable of the process,
  and the client library reads that variable when a connection performs its GSS
  handshake. \<open>QueryAsUser\<close> touches the variable twice: it writes it at line 96 and
  \<open>pgx.ConnectConfig\<close> reads it at line 112; \<open>PoolForUser\<close> writes it at line 141.
  No lock is taken and the variable is never reset. A request is therefore a
  program of two steps, and the HTTP server runs the requests in any interleaving.
\<close>

datatype pc = AtRegister | AtConnect | Finished

record process =
  newGSS :: "gss_provider option"
  pcs :: "nat \<Rightarrow> pc"
  observed :: "nat \<Rightarrow> gss_provider option"

definition init :: process where
  "init = \<lparr>newGSS = None, pcs = (\<lambda>i. AtRegister), observed = (\<lambda>i. None)\<rparr>"

text \<open>One step of request \<open>i\<close>, whose closure is \<open>prov i\<close>.\<close>

definition step :: "(nat \<Rightarrow> gss_provider) \<Rightarrow> nat \<Rightarrow> process \<Rightarrow> process" where
  "step prov i s =
     (case pcs s i of
        AtRegister \<Rightarrow> s\<lparr>newGSS := Some (prov i), pcs := (pcs s)(i := AtConnect)\<rparr>
      | AtConnect \<Rightarrow> s\<lparr>observed := (observed s)(i := newGSS s), pcs := (pcs s)(i := Finished)\<rparr>
      | Finished \<Rightarrow> s)"

text \<open>A schedule is the order in which the requests take their steps.\<close>

definition run :: "(nat \<Rightarrow> gss_provider) \<Rightarrow> nat list \<Rightarrow> process \<Rightarrow> process" where
  "run prov schedule s = fold (step prov) schedule s"

text \<open>Request 0 works for alice and every other request for bob.\<close>

definition two_users :: "nat \<Rightarrow> gss_provider" where
  "two_users i =
     (if i = 0 then QueryAsUser_provider ''/tmp/krb5cc_alice'' ''/etc/krb5.conf''
      else QueryAsUser_provider ''/tmp/krb5cc_bob'' ''/etc/krb5.conf'')"

section \<open>A concrete world\<close>

text \<open>
  A world in which every call succeeds, used to run the definitions. The key
  distribution centre issues, at time \<open>clock\<close>, tickets that end ten time units
  later; the directory answers the login with two cookies; the database answers
  the query with one row.
\<close>

definition world :: "nat \<Rightarrow> env" where
  "world clock =
     \<lparr>Map_unicode_ToLower = (\<lambda>s. s),
      url_Hostname = (\<lambda>u. Inr ''IPA.Example.COM''),
      LoadCCache = (\<lambda>p. Inr (CCache p)),
      config_Load = (\<lambda>p. Inr (Config p)),
      config_New = Config [],
      NewFromCCache = (\<lambda>cc cfg opts. Inr (Client cc cfg opts)),
      GetServiceTicket = (\<lambda>c spn. Inr (\<lparr>SName = spn, EndTime = clock + 10\<rparr>, EncryptionKey ''k'')),
      NewKRB5TokenAPREQ = (\<lambda>c t k fl. Inr (KRB5Token ''apreq'')),
      Marshal = (\<lambda>t. Inr ''raw''),
      Unmarshal = (\<lambda>b. None),
      EncodeToString = (\<lambda>b. b),
      http_Do = (\<lambda>req. Inr \<lparr>StatusCode = 200,
                             Cookies = [\<lparr>Name = ''lang'', Value = ''en''\<rparr>,
                                        \<lparr>Name = ''ipa_session'', Value = ''MagBearerToken''\<rparr>],
                             Body = ''{}''\<rparr>),
      json_Decode = (\<lambda>b. Inr \<lparr>RespResult = [(''uid'', ''jdoe'')], RespError = None\<rparr>),
      json_Encode = (\<lambda>p. None),
      Getenv = (\<lambda>k. k),
      pgx_ParseConfig = (\<lambda>dsn. Inr \<lparr>ParsedDSN = dsn, ConnectTimeout = 0, TLSConfig = None\<rparr>),
      pgx_ConnectConfig = (\<lambda>p cfg. Inr (Conn (prov_ccachePath p))),
      conn_Query = (\<lambda>c q. Inr \<lparr>Values = [Inr [AnyString ''jdoe'', AnyString ''jdoe'', AnyTime 1]],
                                Err = None\<rparr>),
      pgxpool_ParseConfig = (\<lambda>dsn. Inr \<lparr>PoolDSN = dsn, MaxConns = 4, MinConns = 0,
                                        MaxConnLifetime = 3600, HealthCheckPeriod = 60,
                                        DialTimeout = None\<rparr>),
      pgxpool_NewWithConfig = (\<lambda>p pc. Inr (Pool (prov_ccachePath p)))\<rparr>"

definition jdoe_request :: request where
  "jdoe_request =
     \<lparr>Header = [(''X_krb5ccname'', ''FILE:/tmp/krb5cc_jdoe'')],
      Query = [(''uid'', ''jdoe'')],
      Identity = Some \<lparr>UserName = ''jdoe''\<rparr>\<rparr>"

text \<open>The validity end of the ticket that an acquisition returned, if it returned one.\<close>

definition ticket_end :: "(client \<times> ticket \<times> key) io \<Rightarrow> nat option" where
  "ticket_end r = (case snd r of Inl e \<Rightarrow> None | Inr (c, t, k) \<Rightarrow> Some (EndTime t))"

text \<open>The same world with a base URL whose host name ends in a dot.\<close>

definition dotted_world :: env where
  "dotted_world = (world 0)\<lparr>url_Hostname := (\<lambda>u. Inr ''IPA.Example.COM.'')\<rparr>"

text \<open>The same world with a directory that answers the login with status 403.\<close>

definition rejecting_world :: env where
  "rejecting_world =
     (world 0)\<lparr>http_Do := (\<lambda>req. Inr \<lparr>StatusCode = 403, Cookies = [], Body = []\<rparr>)\<rparr>"

text \<open>The client that the library builds for the credential cache of jdoe.\<close>

definition jdoe_client :: client where
  "jdoe_client =
     Client (CCache ''/tmp/krb5cc_jdoe'') (Config ''/etc/krb5.conf'') [AssumePreAuthentication True]"

text \<open>The login request that \<open>loginKerberos\<close> sends in these worlds.\<close>

definition login_req :: http_request where
  "login_req = \<lparr>Method = ''GET'', URL = ''https://IPA.Example.COM/ipa/session/login_kerberos'',
                ReqHeader = [(''Authorization'', ''Negotiate raw''), (''Accept'', ''application/json'')],
                ReqCookies = [], ReqBody = None\<rparr>"


section \<open>Facts about Split and the row loop\<close>

lemma length_Split: "length (Split s c) = Suc (length (filter (\<lambda>x. x = c) s))"
  by (induction s) (auto split: list.splits)

lemma Split_nonempty: "Split s c \<noteq> []"
  using length_Split [of s c] by auto


lemma Split_append_sep:
  "c \<notin> set pre \<Longrightarrow> Split (pre @ c # rest) c = pre # Split rest c"
  by (induction pre) (auto split: list.splits simp: Split_nonempty)

lemma hd_Split: "hd (Split s c) = takeWhile (\<lambda>x. x \<noteq> c) s"
  by (induction s) (auto split: list.splits simp: Split_nonempty)

lemma index_Split_sep:
  assumes "c \<in> set s"
  shows "index (Split s c) 1 = Inr (takeWhile (\<lambda>x. x \<noteq> c) (tl (dropWhile (\<lambda>x. x \<noteq> c) s)))"
proof -
  from assms obtain pre rest where s: "s = pre @ c # rest" and pre: "c \<notin> set pre"
    by (meson split_list_first)
  have dw: "dropWhile (\<lambda>x. x \<noteq> c) s = c # rest"
    using pre by (auto simp: s dropWhile_append3)
  have "Split s c = pre # Split rest c" using pre by (simp add: s Split_append_sep)
  moreover obtain f fs where "Split rest c = f # fs" using Split_nonempty [of rest c] by (cases "Split rest c") auto
  moreover have "hd (Split rest c) = takeWhile (\<lambda>x. x \<noteq> c) rest" by (rule hd_Split)
  ultimately show ?thesis by (simp add: index_def dw)
qed

lemma row_dbData_panic: "row_dbData row = Inl p \<Longrightarrow> p \<noteq> NilDereference"
  by (auto simp: row_dbData_def panic_bind_def index_def as_string_def as_time_def
           split: sum.splits if_splits any.splits)

lemma range_rows_panic: "range_rows rows acc = Inl p \<Longrightarrow> p \<noteq> NilDereference"
  by (induction rows arbitrary: acc) (auto split: sum.splits dest: row_dbData_panic)

lemma range_rows_Inr:
  "map row_dbData rows = map Inr decoded \<Longrightarrow> range_rows rows acc = Inr (acc @ decoded)"
proof (induction rows arbitrary: acc decoded)
  case Nil
  then show ?case by simp
next
  case (Cons row rows)
  then obtain d ds where "decoded = d # ds" by (cases decoded) auto
  with Cons show ?case by auto
qed

lemma world_query:
  "QueryAsUser (world 0) (dbDsn (world 0) ''jdoe'') ''/tmp/krb5cc_jdoe'' (Getenv (world 0) ''KRB5_CONFIG_PATH'')
     ''select current_user, session_user, now()''
   = (fst (QueryAsUser (world 0) (dbDsn (world 0) ''jdoe'') ''/tmp/krb5cc_jdoe'' ''KRB5_CONFIG_PATH''
     ''select current_user, session_user, now()''), [[AnyString ''jdoe'', AnyString ''jdoe'', AnyTime 1]], None)"
  by (simp add: QueryAsUser_def world_def Let_def)

lemma jdoe_header: "Get (Header jdoe_request) ''X_krb5ccname'' = ''FILE:/tmp/krb5cc_jdoe''"
  by (simp add: jdoe_request_def Get_def)



section \<open>The Continue step\<close>

text \<open>
  Claim C5. For every input byte string, and whatever the parser of the Kerberos
  library says about it, \<open>Continue\<close> returns done = true, no output token and no
  error. In the exchange that drives it, the initial token is therefore the only
  token sent, whatever the peer replies.
\<close>

theorem Continue_done:
  "Continue U inToken = (True, None, None) \<and> gss_exchange U tok replies = [tok]"
  by (cases replies) (simp_all add: Continue_def split: option.splits)

theorem Continue_done_witness:
  "Continue (\<lambda>b. Some ''unexpected EOF'') ''junk'' = (True, None, None)
   \<and> Continue (\<lambda>b. None) ''reply'' = (True, None, None)
   \<and> gss_exchange (\<lambda>b. None) ''token'' [''reply'', ''more''] = [''token'']"
  using Continue_done [of "\<lambda>b. Some ''unexpected EOF''" "''junk''"]
        Continue_done [of "\<lambda>b. None" "''reply''" "''token''" "[''reply'', ''more'']"]
  by simp


section \<open>Requests without a credential handle\<close>

text \<open>
  Claim C7. When the header \<open>X_krb5ccname\<close> is absent or empty, both handlers
  answer with status 401 and return. The events of the run are the response (and,
  in \<open>IpaUserHandler\<close>, one log line): no credential cache is loaded, no ticket is
  asked for, and no downstream call is made.
\<close>

theorem no_header_unauthorized:
  assumes "map_of (Header r) ''X_krb5ccname'' = None \<or> map_of (Header r) ''X_krb5ccname'' = Some []"
  shows "IpaUserHandler env r =
           ([LogPrintln ''no delegated credentials'',
             HttpError (Plain ''unauthorized '') StatusUnauthorized], Returned)
         \<and> TestSelectHandler env r =
           ([HttpError (Plain ''no delegated credentials'') StatusUnauthorized], Returned)"
proof -
  from assms have "Get (Header r) ''X_krb5ccname'' = []" by (auto simp: Get_def)
  then show ?thesis by (simp add: IpaUserHandler_def TestSelectHandler_def)
qed

theorem no_header_unauthorized_witness:
  "map_of (Header \<lparr>Header = [(''Accept'', ''*/*'')], Query = [(''uid'', ''jdoe'')], Identity = None\<rparr>)
       ''X_krb5ccname'' = None
   \<and> IpaUserHandler (world 0) \<lparr>Header = [(''Accept'', ''*/*'')], Query = [(''uid'', ''jdoe'')], Identity = None\<rparr>
       = ([LogPrintln ''no delegated credentials'',
           HttpError (Plain ''unauthorized '') StatusUnauthorized], Returned)
   \<and> TestSelectHandler (world 0) \<lparr>Header = [(''Accept'', ''*/*'')], Query = [(''uid'', ''jdoe'')], Identity = None\<rparr>
       = ([HttpError (Plain ''no delegated credentials'') StatusUnauthorized], Returned)"
proof -
  have h: "map_of (Header \<lparr>Header = [(''Accept'', ''*/*'')], Query = [(''uid'', ''jdoe'')], Identity = None\<rparr>)
       ''X_krb5ccname'' = None"
    by simp
  then have "map_of (Header \<lparr>Header = [(''Accept'', ''*/*'')], Query = [(''uid'', ''jdoe'')], Identity = None\<rparr>)
       ''X_krb5ccname'' = None \<or> map_of (Header \<lparr>Header = [(''Accept'', ''*/*'')], Query = [(''uid'', ''jdoe'')], Identity = None\<rparr>)
       ''X_krb5ccname'' = Some []" by (rule disjI1)
  from no_header_unauthorized [OF this, of "world 0"] h show ?thesis by blast
qed


section \<open>The credential-cache path\<close>




section \<open>The missing identity\<close>

text \<open>
  Claim C9. In \<open>TestSelectHandler\<close>, with a usable header and no identity in the
  request context, the handler writes the 401 response \<open>id is required\<close> and does
  not return: it goes on to call a method of the nil identity and panics. With an
  identity attached this panic does not happen.
\<close>

theorem nil_identity_panics:
  assumes "Get (Header r) ''X_krb5ccname'' \<noteq> []"
    and "CHR '':'' \<in> set (Get (Header r) ''X_krb5ccname'')"
  shows "(Identity r = None \<longrightarrow>
            TestSelectHandler env r =
              ([HttpError (Plain ''id is required'') StatusUnauthorized], Panicked NilDereference))
       \<and> (Identity r \<noteq> None \<longrightarrow> snd (TestSelectHandler env r) \<noteq> Panicked NilDereference)"
proof (intro conjI impI)
  obtain ccache where cc: "index (Split (Get (Header r) ''X_krb5ccname'') CHR '':'') 1 = Inr ccache"
    using index_Split_sep [OF assms(2)] by blast
  {
    assume "Identity r = None"
    then show "TestSelectHandler env r =
              ([HttpError (Plain ''id is required'') StatusUnauthorized], Panicked NilDereference)"
      using assms(1) cc by (simp add: TestSelectHandler_def)
  }
  {
    assume "Identity r \<noteq> None"
    then obtain ident where "Identity r = Some ident" by auto
    then show "snd (TestSelectHandler env r) \<noteq> Panicked NilDereference"
      using assms(1) cc
      by (auto simp: TestSelectHandler_def Let_def split: prod.splits option.splits sum.splits
               dest: range_rows_panic)
  }
qed

theorem nil_identity_panics_witness:
  "TestSelectHandler (world 0) (jdoe_request\<lparr>Identity := None\<rparr>)
     = ([HttpError (Plain ''id is required'') StatusUnauthorized], Panicked NilDereference)
   \<and> snd (TestSelectHandler (world 0) jdoe_request) \<noteq> Panicked NilDereference"
proof -
  have a: "Get (Header (jdoe_request\<lparr>Identity := None\<rparr>)) ''X_krb5ccname'' \<noteq> []"
    by (simp add: jdoe_request_def Get_def)
  have b: "CHR '':'' \<in> set (Get (Header (jdoe_request\<lparr>Identity := None\<rparr>)) ''X_krb5ccname'')"
    by (simp add: jdoe_request_def Get_def)
  have c: "Get (Header jdoe_request) ''X_krb5ccname'' \<noteq> []"
    by (simp add: jdoe_header)
  have d: "CHR '':'' \<in> set (Get (Header jdoe_request) ''X_krb5ccname'')"
    by (simp add: jdoe_header)
  from nil_identity_panics [OF a b, of "world 0"] nil_identity_panics [OF c d, of "world 0"]
  show ?thesis by (simp add: jdoe_request_def)
qed


section \<open>The encoded list\<close>

text \<open>
  Claim C10. When \<open>QueryAsUser\<close> returns N rows without error and every row
  decodes, the list that \<open>TestSelectHandler\<close> hands to the JSON encoder is N zero
  records followed by the N decoded records, 2 * N elements in all.
\<close>

theorem doubled_list:
  assumes "Get (Header r) ''X_krb5ccname'' \<noteq> []"
    and "index (Split (Get (Header r) ''X_krb5ccname'') CHR '':'') 1 = Inr ccache"
    and "Identity r = Some ident"
    and "QueryAsUser env (dbDsn env (UserName ident)) ccache (Getenv env ''KRB5_CONFIG_PATH'')
           ''select current_user, session_user, now()'' = (tr, rows, None)"
    and "map row_dbData rows = map Inr decoded"
  shows "(\<exists>rest. TestSelectHandler env r =
            (tr @ [HeaderSet ''Content-Type'' ''application/json'',
                   JsonEncode (DbPayload (replicate (length rows) zero_dbData @ decoded))] @ rest,
             Returned))
       \<and> length (replicate (length rows) zero_dbData @ decoded) = 2 * length rows"
proof
  have "range_rows rows (replicate (length rows) zero_dbData)
          = Inr (replicate (length rows) zero_dbData @ decoded)"
    using assms(5) by (rule range_rows_Inr)
  then show "\<exists>rest. TestSelectHandler env r =
            (tr @ [HeaderSet ''Content-Type'' ''application/json'',
                   JsonEncode (DbPayload (replicate (length rows) zero_dbData @ decoded))] @ rest,
             Returned)"
    using assms(1-4) by (simp add: TestSelectHandler_def)
  have "length decoded = length rows"
    using assms(5) by (metis length_map)
  then show "length (replicate (length rows) zero_dbData @ decoded) = 2 * length rows"
    by simp
qed

theorem doubled_list_witness:
  "\<exists>tr rest. TestSelectHandler (world 0) jdoe_request =
       (tr @ [HeaderSet ''Content-Type'' ''application/json'',
              JsonEncode (DbPayload [zero_dbData,
                 \<lparr>CurrentUser = ''jdoe'', SessionUser = ''jdoe'', Timestamp = 1\<rparr>])] @ rest,
        Returned)"
proof -
  have h1: "Get (Header jdoe_request) ''X_krb5ccname'' \<noteq> []"
    by (simp add: jdoe_header)
  have h2: "index (Split (Get (Header jdoe_request) ''X_krb5ccname'') CHR '':'') 1 = Inr ''/tmp/krb5cc_jdoe''"
    by (simp add: jdoe_header index_def)
  have h3: "Identity jdoe_request = Some \<lparr>UserName = ''jdoe''\<rparr>"
    by (simp add: jdoe_request_def)
  have h5: "map row_dbData [[AnyString ''jdoe'', AnyString ''jdoe'', AnyTime 1]]
             = map Inr [\<lparr>CurrentUser = ''jdoe'', SessionUser = ''jdoe'', Timestamp = 1\<rparr>]"
    by (simp add: row_dbData_def panic_bind_def index_def as_string_def as_time_def)
  have h4: "QueryAsUser (world 0) (dbDsn (world 0) (UserName \<lparr>UserName = ''jdoe''\<rparr>)) ''/tmp/krb5cc_jdoe''
             (Getenv (world 0) ''KRB5_CONFIG_PATH'') ''select current_user, session_user, now()''
           = (fst (QueryAsUser (world 0) (dbDsn (world 0) ''jdoe'') ''/tmp/krb5cc_jdoe'' ''KRB5_CONFIG_PATH''
                ''select current_user, session_user, now()''),
              [[AnyString ''jdoe'', AnyString ''jdoe'', AnyTime 1]], None)"
    using world_query by simp
  from doubled_list [OF h1 h2 h3 h4 h5] show ?thesis
    by auto
qed

section \<open>Facts about the login and the token functions\<close>

lemmas io_defs = io_bind_def call_def io_return_def io_fail_def

lemma find_in_set: "find P xs = Some x \<Longrightarrow> x \<in> set xs \<and> P x"
  by (induction xs) (auto split: if_splits)

lemma login_result:
  assumes "loginKerberos env ipaBaseURL krb5ConfPath ccachePath = (tr, res)"
    and "CallHttpDo req \<in> set tr"
    and "http_Do env req = Inr resp"
  shows "res = (if StatusCode resp \<noteq> StatusOK then Inl (ErrLoginKerberosHTTP (StatusCode resp))
                else (case find (\<lambda>c. HasPrefix (Name c) ''ipa_session'') (Cookies resp) of
                        None \<Rightarrow> Inl ErrNoIpaSessionCookie
                      | Some ipaCookie \<Rightarrow> Inr (HttpClient 10, ipaCookie)))"
  using assms
  by (auto simp: loginKerberos_def loginKerberos_ticket_def io_defs Let_def
           split: sum.splits prod.splits option.splits if_splits)

lemma login_requests:
  "length (filter is_CallHttpDo (fst (loginKerberos env ipaBaseURL krb5ConfPath ccachePath))) \<le> 1"
  by (auto simp: loginKerberos_def loginKerberos_ticket_def io_defs Let_def
           split: sum.splits prod.splits option.splits if_splits)

lemma ToLower_example: "ToLower U ''IPA.Example.COM'' = ''ipa.example.com''"
  by (simp add: ToLower_def is_ascii_def lower_char_def lower_table_def)

lemma ToLower_dotted: "ToLower U ''IPA.Example.COM.'' = ''ipa.example.com.''"
  by (simp add: ToLower_def is_ascii_def lower_char_def lower_table_def)

lemma world_login:
  "loginKerberos (world 0) ''https://IPA.Example.COM/'' ''/etc/krb5.conf'' ''/tmp/krb5cc_jdoe''
     = ([CallUrlParse ''https://IPA.Example.COM/'', CallLoadCCache ''/tmp/krb5cc_jdoe'',
         CallConfigLoad ''/etc/krb5.conf'', CallNewFromCCache [AssumePreAuthentication True],
         CallGetServiceTicket ''HTTP/ipa.example.com'',
         CallNewKRB5TokenAPREQ [ContextFlagInteg, ContextFlagConf], CallMarshal,
         CallHttpDo login_req, BodyClose],
        Inr (HttpClient 10, \<lparr>Name = ''ipa_session'', Value = ''MagBearerToken''\<rparr>))"
  by (simp add: loginKerberos_def loginKerberos_ticket_def io_defs Let_def world_def login_req_def
        http_spn_def ToLower_example TrimRight_def HasPrefix_def)


lemma rejecting_login:
  "loginKerberos rejecting_world ''https://IPA.Example.COM/'' ''/etc/krb5.conf'' ''/tmp/krb5cc_jdoe''
     = ([CallUrlParse ''https://IPA.Example.COM/'', CallLoadCCache ''/tmp/krb5cc_jdoe'',
         CallConfigLoad ''/etc/krb5.conf'', CallNewFromCCache [AssumePreAuthentication True],
         CallGetServiceTicket ''HTTP/ipa.example.com'',
         CallNewKRB5TokenAPREQ [ContextFlagInteg, ContextFlagConf], CallMarshal,
         CallHttpDo login_req, BodyClose],
        Inl (ErrLoginKerberosHTTP 403))"
  by (simp add: loginKerberos_def loginKerberos_ticket_def io_defs Let_def world_def login_req_def
        rejecting_world_def http_spn_def ToLower_example TrimRight_def HasPrefix_def)

lemma login_token:
  "CallHttpDo req \<in> set (fst (loginKerberos env ipaBaseURL krb5ConfPath ccachePath)) \<Longrightarrow>
     \<exists>cli tkt skey gtok rawTok.
        NewKRB5TokenAPREQ env cli tkt skey [ContextFlagInteg, ContextFlagConf] = Inr gtok
      \<and> Marshal env gtok = Inr rawTok
      \<and> map_of (ReqHeader req) ''Authorization'' = Some (''Negotiate '' @ EncodeToString env rawTok)"
  apply (auto simp: loginKerberos_def loginKerberos_ticket_def io_defs Let_def
           split: sum.splits prod.splits option.splits if_splits)
  apply blast+
  done

lemma login_flags:
  "CallNewKRB5TokenAPREQ fl \<in> set (fst (loginKerberos env ipaBaseURL krb5ConfPath ccachePath)) \<Longrightarrow>
     fl = [ContextFlagInteg, ContextFlagConf]"
  by (auto simp: loginKerberos_def loginKerberos_ticket_def io_defs Let_def
           split: sum.splits prod.splits option.splits if_splits)

lemma wire_token:
  "snd (GetInitTokenFromSPN env g spn) = Inr tok \<Longrightarrow>
     \<exists>tkt k krbTok.
        GetServiceTicket env (cl g) spn = Inr (tkt, k)
      \<and> NewKRB5TokenAPREQ env (cl g) tkt k [ContextFlagInteg, ContextFlagConf, ContextFlagMutual] = Inr krbTok
      \<and> Marshal env krbTok = Inr tok"
  by (auto simp: GetInitTokenFromSPN_def GetInitTokenFromSPN_ticket_def io_defs
           split: sum.splits prod.splits)

lemma wire_flags:
  "CallNewKRB5TokenAPREQ fl \<in> set (fst (GetInitTokenFromSPN env g spn)) \<Longrightarrow>
     fl = [ContextFlagInteg, ContextFlagConf, ContextFlagMutual]"
  by (auto simp: GetInitTokenFromSPN_def GetInitTokenFromSPN_ticket_def io_defs
           split: sum.splits prod.splits)

lemma world_wire:
  "GetInitTokenFromSPN (world 0) \<lparr>cl = Client (CCache ''/tmp/krb5cc_jdoe'') (Config ''/etc/krb5.conf'') []\<rparr>
      ''postgres/db.example.com''
   = ([CallGetServiceTicket ''postgres/db.example.com'',
       CallNewKRB5TokenAPREQ [ContextFlagInteg, ContextFlagConf, ContextFlagMutual],
       CallMarshal], Inr ''raw'')"
  by (simp add: GetInitTokenFromSPN_def GetInitTokenFromSPN_ticket_def io_defs world_def)

lemma login_ticket_success:
  "loginKerberos_ticket env krb5ConfPath ccachePath spn = (tr, Inr (cli, tkt, skey)) \<Longrightarrow>
     tr = [CallLoadCCache ccachePath, CallConfigLoad krb5ConfPath,
           CallNewFromCCache [AssumePreAuthentication True], CallGetServiceTicket spn]
     \<and> (\<exists>cc krbCfg. LoadCCache env ccachePath = Inr cc
           \<and> config_Load env krb5ConfPath = Inr krbCfg
           \<and> NewFromCCache env cc krbCfg [AssumePreAuthentication True] = Inr cli)
     \<and> GetServiceTicket env cli spn = Inr (tkt, skey)"
  by (auto simp: loginKerberos_ticket_def io_defs split: sum.splits prod.splits)

lemma new_gss_success:
  "NewGSSFromCCache env ccachePath krb5ConfPath opts = (tr, Inr g) \<Longrightarrow>
     tr = [CallLoadCCache ccachePath,
           (if krb5ConfPath \<noteq> [] then CallConfigLoad krb5ConfPath else CallConfigNew),
           CallNewFromCCache opts]
     \<and> (\<exists>cc cfg. LoadCCache env ccachePath = Inr cc
           \<and> (if krb5ConfPath \<noteq> [] then config_Load env krb5ConfPath = Inr cfg
               else cfg = config_New env)
           \<and> NewFromCCache env cc cfg opts = Inr (cl g))"
  by (auto simp: NewGSSFromCCache_def io_defs split: sum.splits prod.splits if_splits)

lemma wire_token_success:
  "GetInitTokenFromSPN env g spn = (tr, Inr tok) \<Longrightarrow>
     tr = [CallGetServiceTicket spn,
           CallNewKRB5TokenAPREQ [ContextFlagInteg, ContextFlagConf, ContextFlagMutual],
           CallMarshal]
     \<and> (\<exists>tkt k krbTok. GetServiceTicket env (cl g) spn = Inr (tkt, k)
           \<and> NewKRB5TokenAPREQ env (cl g) tkt k
                [ContextFlagInteg, ContextFlagConf, ContextFlagMutual] = Inr krbTok
           \<and> Marshal env krbTok = Inr tok)"
  by (auto simp: GetInitTokenFromSPN_def GetInitTokenFromSPN_ticket_def io_defs
           split: sum.splits prod.splits)

lemma world_ticket:
  "loginKerberos_ticket (world clock) ''/etc/krb5.conf'' ''/tmp/krb5cc_jdoe'' ''HTTP/ipa.example.com''
     = ([CallLoadCCache ''/tmp/krb5cc_jdoe'', CallConfigLoad ''/etc/krb5.conf'',
         CallNewFromCCache [AssumePreAuthentication True],
         CallGetServiceTicket ''HTTP/ipa.example.com''],
        Inr (jdoe_client, \<lparr>SName = ''HTTP/ipa.example.com'', EndTime = clock + 10\<rparr>,
             EncryptionKey ''k''))"
  by (simp add: loginKerberos_ticket_def io_defs world_def jdoe_client_def)

lemma world_new_gss:
  "NewGSSFromCCache (world 0) ''/tmp/krb5cc_jdoe'' [] []
     = ([CallLoadCCache ''/tmp/krb5cc_jdoe'', CallConfigNew, CallNewFromCCache []],
        Inr \<lparr>cl = Client (CCache ''/tmp/krb5cc_jdoe'') (Config []) []\<rparr>)"
  by (simp add: NewGSSFromCCache_def io_defs world_def)

section \<open>The login to the directory service\<close>

text \<open>
  Claim C6. When \<open>loginKerberos\<close> has sent its login request and a response came
  back: with a status other than 200 the result is the error that carries the
  status (the rejected login); with status 200 the result is the first cookie of the
  response whose name starts with \<open>ipa_session\<close>, and the error of the missing
  session cookie if and only if the response has no such cookie. The run holds at
  most one HTTP request, so the token is never sent again.
\<close>

theorem login_status_and_cookie:
  assumes "loginKerberos env ipaBaseURL krb5ConfPath ccachePath = (tr, res)"
    and "CallHttpDo req \<in> set tr"
    and "http_Do env req = Inr resp"
  shows "(StatusCode resp \<noteq> StatusOK \<longrightarrow> res = Inl (ErrLoginKerberosHTTP (StatusCode resp)))
       \<and> (StatusCode resp = StatusOK \<longrightarrow>
            res = (case find (\<lambda>c. HasPrefix (Name c) ''ipa_session'') (Cookies resp) of
                     None \<Rightarrow> Inl ErrNoIpaSessionCookie
                   | Some ipaCookie \<Rightarrow> Inr (HttpClient 10, ipaCookie)))
       \<and> (StatusCode resp = StatusOK \<longrightarrow>
            (res = Inl ErrNoIpaSessionCookie
               \<longleftrightarrow> (\<forall>c \<in> set (Cookies resp). \<not> HasPrefix (Name c) ''ipa_session'')))
       \<and> length (filter is_CallHttpDo tr) \<le> 1"
proof (intro conjI impI)
  note r = login_result [OF assms]
  show "StatusCode resp \<noteq> StatusOK \<Longrightarrow> res = Inl (ErrLoginKerberosHTTP (StatusCode resp))"
    using r by simp
  show "StatusCode resp = StatusOK \<Longrightarrow>
      res = (case find (\<lambda>c. HasPrefix (Name c) ''ipa_session'') (Cookies resp) of
                     None \<Rightarrow> Inl ErrNoIpaSessionCookie
                   | Some ipaCookie \<Rightarrow> Inr (HttpClient 10, ipaCookie))"
    using r by simp
  show "StatusCode resp = StatusOK \<Longrightarrow>
      (res = Inl ErrNoIpaSessionCookie
               \<longleftrightarrow> (\<forall>c \<in> set (Cookies resp). \<not> HasPrefix (Name c) ''ipa_session''))"
    using r find_in_set [of "\<lambda>c. HasPrefix (Name c) ''ipa_session''" "Cookies resp"]
    by (cases "find (\<lambda>c. HasPrefix (Name c) ''ipa_session'') (Cookies resp)")
       (auto simp: find_None_iff)
  show "length (filter is_CallHttpDo tr) \<le> 1"
    using login_requests [of env ipaBaseURL krb5ConfPath ccachePath] assms(1) by simp
qed


theorem login_status_and_cookie_witness:
  "snd (loginKerberos (world 0) ''https://IPA.Example.COM/'' ''/etc/krb5.conf'' ''/tmp/krb5cc_jdoe'')
     = Inr (HttpClient 10, \<lparr>Name = ''ipa_session'', Value = ''MagBearerToken''\<rparr>)
   \<and> snd (loginKerberos rejecting_world ''https://IPA.Example.COM/'' ''/etc/krb5.conf'' ''/tmp/krb5cc_jdoe'')
     = Inl (ErrLoginKerberosHTTP 403)"
proof -
  have a: "CallHttpDo login_req \<in> set [CallUrlParse ''https://IPA.Example.COM/'', CallLoadCCache ''/tmp/krb5cc_jdoe'',
         CallConfigLoad ''/etc/krb5.conf'', CallNewFromCCache [AssumePreAuthentication True],
         CallGetServiceTicket ''HTTP/ipa.example.com'',
         CallNewKRB5TokenAPREQ [ContextFlagInteg, ContextFlagConf], CallMarshal,
         CallHttpDo login_req, BodyClose]"
    by simp
  have b: "http_Do (world 0) login_req =
       Inr \<lparr>StatusCode = 200,
            Cookies = [\<lparr>Name = ''lang'', Value = ''en''\<rparr>,
                       \<lparr>Name = ''ipa_session'', Value = ''MagBearerToken''\<rparr>],
            Body = ''{}''\<rparr>"
    by (simp add: world_def)
  have c: "http_Do rejecting_world login_req = Inr \<lparr>StatusCode = 403, Cookies = [], Body = []\<rparr>"
    by (simp add: rejecting_world_def)
  from login_status_and_cookie [OF world_login a b] login_status_and_cookie [OF rejecting_login a c]
  show ?thesis
    by (simp add: HasPrefix_def world_login rejecting_login)
qed


section \<open>The protection flags\<close>

text \<open>
  Claim C2. The token that \<open>loginKerberos\<close> puts into the \<open>Authorization\<close> header of
  its request is the marshalled result of \<open>NewKRB5TokenAPREQ\<close> called with the flags
  integrity and confidentiality, and with no other flag; the token that
  \<open>GetInitTokenFromSPN\<close> returns is the marshalled result of \<open>NewKRB5TokenAPREQ\<close>
  called with integrity, confidentiality and mutual authentication. Neither function
  calls \<open>NewKRB5TokenAPREQ\<close> with any other list of flags.
\<close>

theorem token_flags:
  "(CallHttpDo req \<in> set (fst (loginKerberos env ipaBaseURL krb5ConfPath ccachePath)) \<longrightarrow>
      (\<exists>cli tkt skey gtok rawTok.
          NewKRB5TokenAPREQ env cli tkt skey [ContextFlagInteg, ContextFlagConf] = Inr gtok
        \<and> Marshal env gtok = Inr rawTok
        \<and> map_of (ReqHeader req) ''Authorization'' = Some (''Negotiate '' @ EncodeToString env rawTok)))
   \<and> (CallNewKRB5TokenAPREQ fl \<in> set (fst (loginKerberos env ipaBaseURL krb5ConfPath ccachePath)) \<longrightarrow>
        fl = [ContextFlagInteg, ContextFlagConf])
   \<and> (snd (GetInitTokenFromSPN env g spn) = Inr tok \<longrightarrow>
      (\<exists>tkt k krbTok.
          GetServiceTicket env (cl g) spn = Inr (tkt, k)
        \<and> NewKRB5TokenAPREQ env (cl g) tkt k
             [ContextFlagInteg, ContextFlagConf, ContextFlagMutual] = Inr krbTok
        \<and> Marshal env krbTok = Inr tok))
   \<and> (CallNewKRB5TokenAPREQ fl' \<in> set (fst (GetInitTokenFromSPN env g spn)) \<longrightarrow>
        fl' = [ContextFlagInteg, ContextFlagConf, ContextFlagMutual])"
  using login_token login_flags wire_token wire_flags by blast

theorem token_flags_witness:
  "CallNewKRB5TokenAPREQ [ContextFlagInteg, ContextFlagConf]
     \<in> set (fst (loginKerberos (world 0) ''https://IPA.Example.COM/'' ''/etc/krb5.conf'' ''/tmp/krb5cc_jdoe''))
   \<and> CallNewKRB5TokenAPREQ [ContextFlagInteg, ContextFlagConf, ContextFlagMutual]
     \<in> set (fst (GetInitTokenFromSPN (world 0)
                    \<lparr>cl = Client (CCache ''/tmp/krb5cc_jdoe'') (Config ''/etc/krb5.conf'') []\<rparr>
                    ''postgres/db.example.com''))
   \<and> (\<exists>cli tkt skey gtok.
          NewKRB5TokenAPREQ (world 0) cli tkt skey [ContextFlagInteg, ContextFlagConf] = Inr gtok
        \<and> Marshal (world 0) gtok = Inr ''raw'')
   \<and> (\<exists>tkt k krbTok.
          NewKRB5TokenAPREQ (world 0) (Client (CCache ''/tmp/krb5cc_jdoe'') (Config ''/etc/krb5.conf'') []) tkt k
             [ContextFlagInteg, ContextFlagConf, ContextFlagMutual] = Inr krbTok
        \<and> Marshal (world 0) krbTok = Inr ''raw'')"
proof -
  have a: "CallHttpDo login_req
     \<in> set (fst (loginKerberos (world 0) ''https://IPA.Example.COM/'' ''/etc/krb5.conf'' ''/tmp/krb5cc_jdoe''))"
    by (simp add: world_login)
  have b: "CallNewKRB5TokenAPREQ [ContextFlagInteg, ContextFlagConf]
     \<in> set (fst (loginKerberos (world 0) ''https://IPA.Example.COM/'' ''/etc/krb5.conf'' ''/tmp/krb5cc_jdoe''))"
    by (simp add: world_login)
  have c: "snd (GetInitTokenFromSPN (world 0)
                    \<lparr>cl = Client (CCache ''/tmp/krb5cc_jdoe'') (Config ''/etc/krb5.conf'') []\<rparr>
                    ''postgres/db.example.com'') = Inr ''raw''"
    by (simp add: world_wire)
  have d: "CallNewKRB5TokenAPREQ [ContextFlagInteg, ContextFlagConf, ContextFlagMutual]
     \<in> set (fst (GetInitTokenFromSPN (world 0)
                    \<lparr>cl = Client (CCache ''/tmp/krb5cc_jdoe'') (Config ''/etc/krb5.conf'') []\<rparr>
                    ''postgres/db.example.com''))"
    by (simp add: world_wire)
  have e: "EncodeToString (world 0) = (\<lambda>b. b)" by (simp add: world_def)
  from token_flags [of login_req "world 0" "''https://IPA.Example.COM/''" "''/etc/krb5.conf''"
        "''/tmp/krb5cc_jdoe''" "[ContextFlagInteg, ContextFlagConf]"
        "\<lparr>cl = Client (CCache ''/tmp/krb5cc_jdoe'') (Config ''/etc/krb5.conf'') []\<rparr>"
        "''postgres/db.example.com''" "''raw''"
        "[ContextFlagInteg, ContextFlagConf, ContextFlagMutual]"] a b c d
  show ?thesis
    by (auto simp: login_req_def e)
qed


section \<open>Ticket acquisition\<close>

text \<open>
  Claim C3, as stated: two acquisitions within the validity window of the first
  ticket return tickets with the same validity end. The code keeps no ticket between
  two acquisitions. In the world whose key distribution centre issues tickets of ten
  time units, an acquisition at time 0 returns a ticket that ends at 10, and an
  acquisition at time 5, within that window, returns a ticket that ends at 15.
\<close>

theorem ticket_reuse_counterexample:
  "ticket_end (loginKerberos_ticket (world 0) ''/etc/krb5.conf'' ''/tmp/krb5cc_jdoe'' ''HTTP/ipa.example.com'')
     = Some 10
   \<and> (5::nat) < 10
   \<and> ticket_end (loginKerberos_ticket (world 5) ''/etc/krb5.conf'' ''/tmp/krb5cc_jdoe'' ''HTTP/ipa.example.com'')
     = Some 15"
  by (simp add: ticket_end_def loginKerberos_ticket_def io_defs world_def)

text \<open>
  Claim C3, amended. On the HTTP Negotiate path an acquisition returns a ticket
  exactly when the credential cache and the realm configuration load, a new
  Kerberos client is built from them, and that client, asked once for the ticket
  of the SPN, returns one; the ticket of the acquisition is the ticket the client
  returned at that call, so its validity end is the one the client library answers
  with at that moment. On the wire path every provider that \<open>NewGSSFromCCache\<close>
  returns holds a new client, built from the loaded credential cache and the loaded
  realm configuration, or the default configuration of the library when the
  configuration path is empty; and every token that \<open>GetInitTokenFromSPN\<close> returns
  was built from the ticket for which it asked the client of the provider once, at
  that call.
\<close>

theorem acquisition_asks_client:
  "(loginKerberos_ticket env krb5ConfPath ccachePath spn = (tr, Inr (cli, tkt, skey)) \<longrightarrow>
      tr = [CallLoadCCache ccachePath, CallConfigLoad krb5ConfPath,
            CallNewFromCCache [AssumePreAuthentication True], CallGetServiceTicket spn]
      \<and> (\<exists>cc krbCfg. LoadCCache env ccachePath = Inr cc
            \<and> config_Load env krb5ConfPath = Inr krbCfg
            \<and> NewFromCCache env cc krbCfg [AssumePreAuthentication True] = Inr cli)
      \<and> GetServiceTicket env cli spn = Inr (tkt, skey))
   \<and> (LoadCCache env1 ccachePath1 = Inr cc1
        \<and> config_Load env1 krb5ConfPath1 = Inr krbCfg1
        \<and> NewFromCCache env1 cc1 krbCfg1 [AssumePreAuthentication True] = Inr cli1
        \<and> GetServiceTicket env1 cli1 spn1 = Inr (tkt1, skey1) \<longrightarrow>
      loginKerberos_ticket env1 krb5ConfPath1 ccachePath1 spn1 =
        ([CallLoadCCache ccachePath1, CallConfigLoad krb5ConfPath1,
          CallNewFromCCache [AssumePreAuthentication True], CallGetServiceTicket spn1],
         Inr (cli1, tkt1, skey1))
      \<and> ticket_end (loginKerberos_ticket env1 krb5ConfPath1 ccachePath1 spn1) = Some (EndTime tkt1))
   \<and> (NewGSSFromCCache env2 ccachePath2 krb5ConfPath2 opts = (tr2, Inr g) \<longrightarrow>
      tr2 = [CallLoadCCache ccachePath2,
             (if krb5ConfPath2 \<noteq> [] then CallConfigLoad krb5ConfPath2 else CallConfigNew),
             CallNewFromCCache opts]
      \<and> (\<exists>cc cfg. LoadCCache env2 ccachePath2 = Inr cc
            \<and> (if krb5ConfPath2 \<noteq> [] then config_Load env2 krb5ConfPath2 = Inr cfg
                else cfg = config_New env2)
            \<and> NewFromCCache env2 cc cfg opts = Inr (cl g)))
   \<and> (GetInitTokenFromSPN env3 g3 spn3 = (tr3, Inr tok) \<longrightarrow>
      tr3 = [CallGetServiceTicket spn3,
             CallNewKRB5TokenAPREQ [ContextFlagInteg, ContextFlagConf, ContextFlagMutual],
             CallMarshal]
      \<and> (\<exists>tkt3 k krbTok. GetServiceTicket env3 (cl g3) spn3 = Inr (tkt3, k)
            \<and> NewKRB5TokenAPREQ env3 (cl g3) tkt3 k
                 [ContextFlagInteg, ContextFlagConf, ContextFlagMutual] = Inr krbTok
            \<and> Marshal env3 krbTok = Inr tok))"
proof -
  have A: "loginKerberos_ticket env krb5ConfPath ccachePath spn = (tr, Inr (cli, tkt, skey)) \<longrightarrow>
      tr = [CallLoadCCache ccachePath, CallConfigLoad krb5ConfPath,
            CallNewFromCCache [AssumePreAuthentication True], CallGetServiceTicket spn]
      \<and> (\<exists>cc krbCfg. LoadCCache env ccachePath = Inr cc
            \<and> config_Load env krb5ConfPath = Inr krbCfg
            \<and> NewFromCCache env cc krbCfg [AssumePreAuthentication True] = Inr cli)
      \<and> GetServiceTicket env cli spn = Inr (tkt, skey)"
    by (rule impI) (erule login_ticket_success)
  have B: "LoadCCache env1 ccachePath1 = Inr cc1
        \<and> config_Load env1 krb5ConfPath1 = Inr krbCfg1
        \<and> NewFromCCache env1 cc1 krbCfg1 [AssumePreAuthentication True] = Inr cli1
        \<and> GetServiceTicket env1 cli1 spn1 = Inr (tkt1, skey1) \<longrightarrow>
      loginKerberos_ticket env1 krb5ConfPath1 ccachePath1 spn1 =
        ([CallLoadCCache ccachePath1, CallConfigLoad krb5ConfPath1,
          CallNewFromCCache [AssumePreAuthentication True], CallGetServiceTicket spn1],
         Inr (cli1, tkt1, skey1))
      \<and> ticket_end (loginKerberos_ticket env1 krb5ConfPath1 ccachePath1 spn1) = Some (EndTime tkt1)"
    by (simp add: loginKerberos_ticket_def io_defs ticket_end_def)
  have C: "NewGSSFromCCache env2 ccachePath2 krb5ConfPath2 opts = (tr2, Inr g) \<longrightarrow>
      tr2 = [CallLoadCCache ccachePath2,
             (if krb5ConfPath2 \<noteq> [] then CallConfigLoad krb5ConfPath2 else CallConfigNew),
             CallNewFromCCache opts]
      \<and> (\<exists>cc cfg. LoadCCache env2 ccachePath2 = Inr cc
            \<and> (if krb5ConfPath2 \<noteq> [] then config_Load env2 krb5ConfPath2 = Inr cfg
                else cfg = config_New env2)
            \<and> NewFromCCache env2 cc cfg opts = Inr (cl g))"
    by (rule impI) (erule new_gss_success)
  have D: "GetInitTokenFromSPN env3 g3 spn3 = (tr3, Inr tok) \<longrightarrow>
      tr3 = [CallGetServiceTicket spn3,
             CallNewKRB5TokenAPREQ [ContextFlagInteg, ContextFlagConf, ContextFlagMutual],
             CallMarshal]
      \<and> (\<exists>tkt3 k krbTok. GetServiceTicket env3 (cl g3) spn3 = Inr (tkt3, k)
            \<and> NewKRB5TokenAPREQ env3 (cl g3) tkt3 k
                 [ContextFlagInteg, ContextFlagConf, ContextFlagMutual] = Inr krbTok
            \<and> Marshal env3 krbTok = Inr tok)"
    by (rule impI) (erule wire_token_success)
  show ?thesis
    by (rule conjI [OF A conjI [OF B conjI [OF C D]]])
qed

theorem acquisition_asks_client_witness:
  "GetServiceTicket (world 5) jdoe_client ''HTTP/ipa.example.com''
     = Inr (\<lparr>SName = ''HTTP/ipa.example.com'', EndTime = 15\<rparr>, EncryptionKey ''k'')
   \<and> ticket_end (loginKerberos_ticket (world 0) ''/etc/krb5.conf'' ''/tmp/krb5cc_jdoe''
                   ''HTTP/ipa.example.com'') = Some 10
   \<and> (\<exists>cc cfg. LoadCCache (world 0) ''/tmp/krb5cc_jdoe'' = Inr cc
         \<and> cfg = config_New (world 0)
         \<and> NewFromCCache (world 0) cc cfg [] = Inr (Client (CCache ''/tmp/krb5cc_jdoe'') (Config []) []))
   \<and> (\<exists>tkt3 k krbTok.
         GetServiceTicket (world 0) (Client (CCache ''/tmp/krb5cc_jdoe'') (Config ''/etc/krb5.conf'') [])
           ''postgres/db.example.com'' = Inr (tkt3, k)
         \<and> NewKRB5TokenAPREQ (world 0) (Client (CCache ''/tmp/krb5cc_jdoe'') (Config ''/etc/krb5.conf'') [])
              tkt3 k [ContextFlagInteg, ContextFlagConf, ContextFlagMutual] = Inr krbTok
         \<and> Marshal (world 0) krbTok = Inr ''raw'')"
proof -
  have h: "LoadCCache (world 0) ''/tmp/krb5cc_jdoe'' = Inr (CCache ''/tmp/krb5cc_jdoe'')
        \<and> config_Load (world 0) ''/etc/krb5.conf'' = Inr (Config ''/etc/krb5.conf'')
        \<and> NewFromCCache (world 0) (CCache ''/tmp/krb5cc_jdoe'') (Config ''/etc/krb5.conf'')
             [AssumePreAuthentication True] = Inr jdoe_client
        \<and> GetServiceTicket (world 0) jdoe_client ''HTTP/ipa.example.com''
             = Inr (\<lparr>SName = ''HTTP/ipa.example.com'', EndTime = 10\<rparr>, EncryptionKey ''k'')"
    by (simp add: world_def jdoe_client_def)
  note T = acquisition_asks_client
  have a: "GetServiceTicket (world 5) jdoe_client ''HTTP/ipa.example.com''
     = Inr (\<lparr>SName = ''HTTP/ipa.example.com'', EndTime = 15\<rparr>, EncryptionKey ''k'')"
    using T [THEN conjunct1, THEN mp, OF world_ticket [of 5]] by simp
  have b: "ticket_end (loginKerberos_ticket (world 0) ''/etc/krb5.conf'' ''/tmp/krb5cc_jdoe''
                   ''HTTP/ipa.example.com'') = Some 10"
    using T [THEN conjunct2, THEN conjunct1, THEN mp, OF h, THEN conjunct2] by simp
  have c: "\<exists>cc cfg. LoadCCache (world 0) ''/tmp/krb5cc_jdoe'' = Inr cc
         \<and> cfg = config_New (world 0)
         \<and> NewFromCCache (world 0) cc cfg [] = Inr (Client (CCache ''/tmp/krb5cc_jdoe'') (Config []) [])"
    using T [THEN conjunct2, THEN conjunct2, THEN conjunct1, THEN mp, OF world_new_gss] by simp
  have d: "\<exists>tkt3 k krbTok.
         GetServiceTicket (world 0) (Client (CCache ''/tmp/krb5cc_jdoe'') (Config ''/etc/krb5.conf'') [])
           ''postgres/db.example.com'' = Inr (tkt3, k)
         \<and> NewKRB5TokenAPREQ (world 0) (Client (CCache ''/tmp/krb5cc_jdoe'') (Config ''/etc/krb5.conf'') [])
              tkt3 k [ContextFlagInteg, ContextFlagConf, ContextFlagMutual] = Inr krbTok
         \<and> Marshal (world 0) krbTok = Inr ''raw''"
    using T [THEN conjunct2, THEN conjunct2, THEN conjunct2, THEN mp, OF world_wire] by simp
  from a b c d show ?thesis by (intro conjI)
qed

section \<open>The target SPN\<close>

text \<open>
  Claim C4. The claim asks that on both paths the host name is lower-cased and
  trimmed. For the base URL \<open>https://IPA.Example.COM./\<close>, whose host name ends in a
  dot, \<open>loginKerberos\<close> requests the ticket for \<open>HTTP/ipa.example.com.\<close>: it
  lower-cases the host name and leaves the dot. On the wire path
  \<open>canonicalizeHost\<close> removes the dot of the same host name, and the SPN for the
  service \<open>HTTP\<close> is \<open>HTTP/ipa.example.com\<close>.
\<close>

theorem http_spn_keeps_trailing_dot:
  "url_Hostname dotted_world ''https://IPA.Example.COM./'' = Inr ''IPA.Example.COM.''
   \<and> fst (loginKerberos_ticket dotted_world ''/etc/krb5.conf'' ''/tmp/krb5cc_jdoe''
            (http_spn (Map_unicode_ToLower dotted_world) ''IPA.Example.COM.''))
       = [CallLoadCCache ''/tmp/krb5cc_jdoe'', CallConfigLoad ''/etc/krb5.conf'',
          CallNewFromCCache [AssumePreAuthentication True],
          CallGetServiceTicket ''HTTP/ipa.example.com.'']
   \<and> CallGetServiceTicket ''HTTP/ipa.example.com.''
       \<in> set (fst (loginKerberos dotted_world ''https://IPA.Example.COM./'' ''/etc/krb5.conf''
                     ''/tmp/krb5cc_jdoe''))
   \<and> CallGetServiceTicket ''HTTP/ipa.example.com''
       \<notin> set (fst (loginKerberos dotted_world ''https://IPA.Example.COM./'' ''/etc/krb5.conf''
                     ''/tmp/krb5cc_jdoe''))
   \<and> canonicalizeHost (Map_unicode_ToLower dotted_world) ''IPA.Example.COM.'' = ''ipa.example.com''
   \<and> wire_spn (Map_unicode_ToLower dotted_world) ''IPA.Example.COM.'' ''HTTP'' = ''HTTP/ipa.example.com''"
  by (simp add: loginKerberos_def loginKerberos_ticket_def io_defs Let_def http_spn_def
        dotted_world_def world_def ToLower_dotted wire_spn_def canonicalizeHost_def
        TrimSuffix_def HasSuffix_def TrimRight_def HasPrefix_def)

section \<open>Concurrent requests\<close>

text \<open>
  Claim C1. The claim asks that the window from registering the provider to the
  end of the handshake is never entered by two requests at once. The code takes no
  lock. In the schedule in which request 0 (alice) registers, request 1 (bob)
  registers, and then request 0 connects, the connection of request 0 reads the
  provider of bob. When each request runs its two steps without the other in
  between, each connection reads its own provider.
\<close>

theorem interleaved_requests_share_provider:
  "observed (run two_users [0, 1, 0, 1] init) 0
     = Some (QueryAsUser_provider ''/tmp/krb5cc_bob'' ''/etc/krb5.conf'')
   \<and> two_users 0 = QueryAsUser_provider ''/tmp/krb5cc_alice'' ''/etc/krb5.conf''
   \<and> QueryAsUser_provider ''/tmp/krb5cc_alice'' ''/etc/krb5.conf''
       \<noteq> QueryAsUser_provider ''/tmp/krb5cc_bob'' ''/etc/krb5.conf''"
  by (simp add: run_def step_def init_def two_users_def QueryAsUser_provider_def)

lemma serial_ok:
  "observed (run two_users [0, 0, 1, 1] init) 0 = Some (two_users 0)
   \<and> observed (run two_users [0, 0, 1, 1] init) 1 = Some (two_users 1)"
  by (simp add: run_def step_def init_def two_users_def QueryAsUser_provider_def)

end
